theory Spec2Isabelle
  imports Main
begin

section \<open>Strings: the \<open>str\<close> methods that launcher.py uses\<close>

text \<open>
  A Python \<open>str\<close> is modelled as a \<open>string\<close>, a list of characters with code points
  below 256. \<open>isspace\<close> is Python's \<open>str.isspace\<close> on one character of that range: the code
  points 9 to 13, 28 to 32, 133 and 160.
\<close>

definition isspace :: "char \<Rightarrow> bool" where
  "isspace c = (of_char c \<in> {9, 10, 11, 12, 13, 28, 29, 30, 31, 32, 133, 160 :: nat})"

text \<open>\<open>s.lstrip()\<close>: the string without its leading whitespace.\<close>

definition lstrip :: "string \<Rightarrow> string" where
  "lstrip s = dropWhile isspace s"

text \<open>
  \<open>s.split(sep)\<close> for a separator of one character: the pieces between the occurrences
  of \<open>sep\<close>, empty pieces kept; the empty string gives one empty piece.
\<close>

fun split_sep :: "char \<Rightarrow> string \<Rightarrow> string list" where
  "split_sep sep [] = [[]]"
| "split_sep sep (c # cs) =
     (if c = sep then [] # split_sep sep cs
      else (case split_sep sep cs of
              [] \<Rightarrow> [[c]]
            | piece # pieces \<Rightarrow> (c # piece) # pieces))"

text \<open>
  \<open>s.split()\<close> with no argument: the maximal runs of non-whitespace characters, in order;
  \<open>word\<close> is the run read so far.
\<close>

fun split_ws_from :: "string \<Rightarrow> string \<Rightarrow> string list" where
  "split_ws_from word [] = (if word = [] then [] else [word])"
| "split_ws_from word (c # cs) =
     (if isspace c
      then (if word = [] then split_ws_from [] cs else word # split_ws_from [] cs)
      else split_ws_from (word @ [c]) cs)"

definition split_ws :: "string \<Rightarrow> string list" where
  "split_ws s = split_ws_from [] s"

text \<open>\<open>sep.join(xs)\<close>.\<close>

fun join :: "string \<Rightarrow> string list \<Rightarrow> string" where
  "join sep [] = []"
| "join sep [x] = x"
| "join sep (x # y # ys) = x @ sep @ join sep (y # ys)"

section \<open>The host: what the module reads from \<open>sys\<close> and \<open>os\<close>\<close>

text \<open>
  \<open>sys_platform\<close> is \<open>sys.platform\<close>, \<open>sys_executable\<close> is \<open>sys.executable\<close>,
  \<open>os_path_normpath\<close> is the host's \<open>os.path.normpath\<close> (a library function, total on
  strings; it is a parameter of the model), and \<open>os_has_fork\<close> is
  \<open>hasattr(os, 'fork')\<close>.

  The other \<open>os_has\<close> fields say in the same way whether the host's \<open>os\<close> module has
  the attribute: reading an attribute that a module lacks raises AttributeError.
  \<open>startfile\<close> and \<open>P_DETACH\<close> exist on Windows only, \<open>fork\<close> on POSIX hosts that can
  duplicate a process, \<open>spawnv\<close> on Windows and where \<open>fork\<close> exists. (\<open>os.execvp\<close> is
  defined by \<open>os.py\<close> itself on every host, so it has no field.)

  \<open>debug\<close> is \<open>__debug__\<close>: it is False when the interpreter runs with \<open>-O\<close> (or
  \<open>PYTHONOPTIMIZE\<close>), and then every \<open>assert\<close> statement is compiled away.
\<close>

record host =
  sys_platform :: string
  sys_executable :: string
  os_path_normpath :: "string \<Rightarrow> string"
  debug :: bool
  os_has_fork :: bool
  os_has_system :: bool
  os_has_popen :: bool
  os_has_startfile :: bool
  os_has_spawnv :: bool
  os_has_P_DETACH :: bool

text \<open>The test \<open>sys.platform[:3] == 'win'\<close>, which the module writes out four times.\<close>

definition windows_like :: "host \<Rightarrow> bool" where
  "windows_like h = (take 3 (sys_platform h) = ''win'')"

text \<open>
  \<open>posix_normpath\<close> is \<open>posixpath.normpath\<close> of the Python standard library, the value of
  \<open>os.path.normpath\<close> on a POSIX host; it is used where a concrete host is evaluated.
  \<open>normpath_comps\<close> is its loop over the components (\<open>part\<close> is the source's
  \<open>comp\<close>), \<open>new_comps\<close> the list built so far.
\<close>

fun normpath_comps :: "bool \<Rightarrow> string list \<Rightarrow> string list \<Rightarrow> string list" where
  "normpath_comps initial_slashes [] new_comps = new_comps"
| "normpath_comps initial_slashes (part # comps) new_comps =
     (if part = [] \<or> part = ''.'' then normpath_comps initial_slashes comps new_comps
      else if part \<noteq> ''..'' \<or> (\<not> initial_slashes \<and> new_comps = [])
                \<or> (new_comps \<noteq> [] \<and> last new_comps = ''..'')
        then normpath_comps initial_slashes comps (new_comps @ [part])
      else if new_comps \<noteq> [] then normpath_comps initial_slashes comps (butlast new_comps)
      else normpath_comps initial_slashes comps new_comps)"

definition posix_normpath :: "string \<Rightarrow> string" where
  "posix_normpath path =
     (if path = [] then ''.''
      else
        let initial_slashes =
              (if take 1 path = ''/''
               then (if take 2 path = ''//'' \<and> take 3 path \<noteq> ''///'' then 2 else 1)
               else (0::nat));
            comps = normpath_comps (initial_slashes \<noteq> 0) (split_sep CHR ''/'' path) [];
            path' = replicate initial_slashes CHR ''/'' @ join ''/'' comps
        in if path' = [] then ''.'' else path')"

section \<open>Errors\<close>

text \<open>
  \<open>AssertionError\<close> carries the message of the failed \<open>assert\<close> (empty when the statement
  gives none); \<open>IndexError\<close> is what an index out of range raises; \<open>AttributeError\<close>
  carries the name of the attribute that the \<open>os\<close> module lacks.
\<close>

datatype error = AssertionError string | IndexError | AttributeError string

section \<open>fixWindowsPath\<close>

text \<open>
  \<open>splitLine[0]\<close> raises IndexError on an empty list and \<open>splitLine[1:]\<close> is the list
  without its first element; \<open>''.join\<close> is \<open>join\<close> with the empty separator.
\<close>

definition fixWindowsPath :: "host \<Rightarrow> string \<Rightarrow> error + string" where
  "fixWindowsPath h cmdline =
     (let splitLine = split_sep CHR '' '' (lstrip cmdline)
      in case splitLine of
           [] \<Rightarrow> Inl IndexError
         | first # rest \<Rightarrow>
             (let fixedPath = os_path_normpath h first
              in Inr (join [] ([fixedPath] @ rest))))"

section \<open>The module's globals and the launcher classes\<close>

text \<open>
  The seven classes that define \<open>run\<close>; \<open>LaunchMode\<close> itself is abstract and has no
  instance.
\<close>

datatype mode = System | Popen | Fork | Start | StartArgs | Spawn | TopLevel

text \<open>
  The bindings the module makes when it is imported: \<open>pyfile\<close>, \<open>pypath\<close> and
  \<open>PortableLauncher\<close>, which names one of the classes above.
\<close>

record module =
  pyfile :: string
  pypath :: string
  PortableLauncher :: mode

definition import_module :: "host \<Rightarrow> module" where
  "import_module h =
     \<lparr> pyfile = (if windows_like h then ''python.exe'' else ''python''),
       pypath = sys_executable h,
       PortableLauncher = (if windows_like h then Spawn else Fork) \<rparr>"

text \<open>
  A class a caller can instantiate: one of the seven, or \<open>QuietPortableLauncher\<close>, the
  subclass of whatever \<open>PortableLauncher\<close> names. \<open>run_class\<close> is the class whose
  \<open>run\<close> an instance of the class executes (the subclass defines none of its own).
\<close>

datatype launcher = Mode mode | QuietPortableLauncher

fun run_class :: "module \<Rightarrow> launcher \<Rightarrow> mode" where
  "run_class g (Mode m) = m"
| "run_class g QuietPortableLauncher = PortableLauncher g"

text \<open>The fields \<open>self.what\<close> and \<open>self.where\<close> of an instance, with its class.\<close>

record LaunchMode =
  cls :: launcher
  what :: string
  where' :: string

section \<open>Effects\<close>

text \<open>
  What a process does to the outside is the list of its calls to \<open>print\<close> and to the
  process primitives of \<open>os\<close>, in order, each with its arguments. The primitives are
  events of the model: what the operating system does with a call is outside it, except
  for the value of \<open>os.fork()\<close>, which the code branches on.
\<close>

datatype spawn_mode = P_DETACH

datatype event =
    Print string
  | Os_system string
  | Os_popen string
  | Os_fork
  | Os_execvp string "string list"
  | Os_startfile string
  | Os_spawnv spawn_mode string "string list"

text \<open>
  A process is its module globals and the events it has made so far. A call returns,
  raises, or (after \<open>os.execvp\<close>) never comes back because the process image is replaced.
\<close>

record world =
  globals :: module
  trace :: "event list"

datatype 'a outcome = Returns 'a | Raises error | Replaced

definition emit :: "event \<Rightarrow> world \<Rightarrow> world" where
  "emit e w = w\<lparr>trace := trace w @ [e]\<rparr>"

text \<open>One statement after another: the second runs only if the first returns.\<close>

definition seq ::
  "(world \<Rightarrow> 'a outcome \<times> world) \<Rightarrow> ('a \<Rightarrow> world \<Rightarrow> 'b outcome \<times> world)
     \<Rightarrow> world \<Rightarrow> 'b outcome \<times> world" where
  "seq f g w =
     (case f w of
        (Returns x, w1) \<Rightarrow> g x w1
      | (Raises e, w1) \<Rightarrow> (Raises e, w1)
      | (Replaced, w1) \<Rightarrow> (Replaced, w1))"

text \<open>The process right after the import of the module.\<close>

definition start :: "host \<Rightarrow> world" where
  "start h = \<lparr> globals = import_module h, trace = [] \<rparr>"

section \<open>LaunchMode and its subclasses\<close>

text \<open>\<open>LaunchMode.__init__\<close>, inherited by every class: it stores the two fields.\<close>

definition LaunchMode_init ::
  "launcher \<Rightarrow> string \<Rightarrow> string \<Rightarrow> world \<Rightarrow> LaunchMode outcome \<times> world" where
  "LaunchMode_init c label command w =
     (Returns \<lparr> cls = c, what = label, where' = command \<rparr>, w)"

text \<open>\<open>announce\<close>: \<open>print(text)\<close> in \<open>LaunchMode\<close>, \<open>pass\<close> in \<open>QuietPortableLauncher\<close>.\<close>

fun announce :: "launcher \<Rightarrow> string \<Rightarrow> world \<Rightarrow> unit outcome \<times> world" where
  "announce (Mode m) t w = (Returns (), emit (Print t) w)"
| "announce QuietPortableLauncher t w = (Returns (), w)"

text \<open>
  \<open>run\<close> of each class. \<open>fork_value\<close> is what \<open>os.fork()\<close> returns in the process that
  is modelled: 0 in the child, the child's pid in the parent.

  An \<open>assert\<close> is executed only when \<open>debug\<close> holds. Each \<open>os.name\<close> is read when its
  statement is reached, the called function before its arguments, and raises
  AttributeError when the host lacks it.
\<close>

fun run :: "host \<Rightarrow> nat \<Rightarrow> mode \<Rightarrow> string \<Rightarrow> world \<Rightarrow> unit outcome \<times> world" where
  "run h fork_value System cmdline w =
     (case fixWindowsPath h cmdline of
        Inl e \<Rightarrow> (Raises e, w)
      | Inr cmdline' \<Rightarrow>
          if \<not> os_has_system h then (Raises (AttributeError ''system''), w)
          else (Returns (), emit (Os_system (pypath (globals w) @ '' '' @ cmdline')) w))"
| "run h fork_value Popen cmdline w =
     (case fixWindowsPath h cmdline of
        Inl e \<Rightarrow> (Raises e, w)
      | Inr cmdline' \<Rightarrow>
          if \<not> os_has_popen h then (Raises (AttributeError ''popen''), w)
          else (Returns (), emit (Os_popen (pypath (globals w) @ '' '' @ cmdline')) w))"
| "run h fork_value Fork cmdline w =
     (if debug h \<and> \<not> os_has_fork h then (Raises (AssertionError []), w)
      else
        let cmdline' = split_ws cmdline
        in if \<not> os_has_fork h then (Raises (AttributeError ''fork''), w)
           else
             let w1 = emit Os_fork w
             in if fork_value = 0
                then (Replaced,
                      emit (Os_execvp (pypath (globals w1)) ([pyfile (globals w1)] @ cmdline'))
                        w1)
                else (Returns (), w1))"
| "run h fork_value Start cmdline w =
     (if debug h \<and> \<not> windows_like h then (Raises (AssertionError []), w)
      else
        case fixWindowsPath h cmdline of
          Inl e \<Rightarrow> (Raises e, w)
        | Inr cmdline' \<Rightarrow>
            if \<not> os_has_startfile h then (Raises (AttributeError ''startfile''), w)
            else (Returns (), emit (Os_startfile cmdline') w))"
| "run h fork_value StartArgs cmdline w =
     (if debug h \<and> \<not> windows_like h then (Raises (AssertionError []), w)
      else if \<not> os_has_system h then (Raises (AttributeError ''system''), w)
      else (Returns (), emit (Os_system (''start '' @ cmdline)) w))"
| "run h fork_value Spawn cmdline w =
     (if \<not> os_has_spawnv h then (Raises (AttributeError ''spawnv''), w)
      else if \<not> os_has_P_DETACH h then (Raises (AttributeError ''P_DETACH''), w)
      else (Returns (),
            emit (Os_spawnv P_DETACH (pypath (globals w)) [pyfile (globals w), cmdline]) w))"
| "run h fork_value TopLevel cmdline w =
     (if debug h then (Raises (AssertionError ''Mode not yet implemented.''), w)
      else (Returns (), w))"

text \<open>\<open>LaunchMode.__call__\<close>: \<open>self.announce(self.what)\<close>, then \<open>self.run(self.where)\<close>.\<close>

definition call :: "host \<Rightarrow> nat \<Rightarrow> LaunchMode \<Rightarrow> world \<Rightarrow> unit outcome \<times> world" where
  "call h fork_value self =
     seq (announce (cls self) (what self))
       (\<lambda>_ w1. run h fork_value (run_class (globals w1) (cls self)) (where' self) w1)"

text \<open>
  \<open>selfTest\<close>, the module's driver; \<open>argv\<close> is \<open>sys.argv\<close>. At most one of its launches
  forks, so one \<open>fork_value\<close> serves.
\<close>

definition selfTest :: "host \<Rightarrow> string list \<Rightarrow> nat \<Rightarrow> world \<Rightarrow> unit outcome \<times> world" where
  "selfTest h argv fork_value w =
     (if length argv \<le> 1 then (Raises IndexError, w)
      else
        let fileName = argv ! 1
        in seq (\<lambda>w0. (Returns (), emit (Print ''default mode...'') w0))
            (\<lambda>_. seq (\<lambda>w0. LaunchMode_init (Mode (PortableLauncher (globals w0)))
                                fileName fileName w0)
            (\<lambda>self. seq (call h fork_value self)
            (\<lambda>_. seq (\<lambda>w0. (Returns (), emit (Print ''system mode...'') w0))
            (\<lambda>_. seq (LaunchMode_init (Mode System) fileName fileName)
            (\<lambda>self. seq (call h fork_value self)
            (\<lambda>_. if windows_like h
                  then seq (\<lambda>w0. (Returns (), emit (Print ''win mode...'') w0))
                      (\<lambda>_. seq (LaunchMode_init (Mode StartArgs) fileName fileName)
                      (\<lambda>self. call h fork_value self))
                  else (\<lambda>w0. (Returns (), w0)))))))) w)"

section \<open>Observing a trace\<close>

text \<open>
  \<open>printed\<close> is what a trace wrote to standard output, line by line; \<open>os_calls\<close> is its
  calls to the process primitives.
\<close>

fun printed :: "event list \<Rightarrow> string list" where
  "printed [] = []"
| "printed (Print t # es) = t # printed es"
| "printed (e # es) = printed es"

fun os_calls :: "event list \<Rightarrow> event list" where
  "os_calls [] = []"
| "os_calls (Print t # es) = os_calls es"
| "os_calls (e # es) = e # os_calls es"

section \<open>Hosts for concrete runs\<close>

text \<open>
  \<open>linux_host\<close> is a POSIX host with \<open>os.fork\<close>, with assertions on; \<open>linux_host_O\<close> is
  the same host with Python started as \<open>python -O\<close>. \<open>wasm_host\<close> is a host that is not
  Windows-like and cannot create processes (as the WebAssembly builds of Python are).
  \<open>windows_host\<close> is a Windows host; its \<open>os.path.normpath\<close> is \<open>ntpath.normpath\<close>,
  which is not modelled and is left as the argument.
\<close>

definition linux_host :: host where
  "linux_host =
     \<lparr> sys_platform = ''linux'', sys_executable = ''/usr/bin/python3'',
       os_path_normpath = posix_normpath, debug = True,
       os_has_fork = True, os_has_system = True, os_has_popen = True,
       os_has_startfile = False, os_has_spawnv = True, os_has_P_DETACH = False \<rparr>"

definition linux_host_O :: host where
  "linux_host_O = linux_host \<lparr> debug := False \<rparr>"

definition wasm_host :: host where
  "wasm_host =
     \<lparr> sys_platform = ''emscripten'', sys_executable = ''/usr/bin/python3'',
       os_path_normpath = posix_normpath, debug = True,
       os_has_fork = False, os_has_system = False, os_has_popen = False,
       os_has_startfile = False, os_has_spawnv = False, os_has_P_DETACH = False \<rparr>"


section \<open>Properties of the string operations\<close>

lemma split_sep_not_Nil: "split_sep sep s \<noteq> []"
  by (induction s) (auto split: list.splits)

lemma join_empty_sep: "join [] xs = concat xs"
  by (induction xs rule: induct_list012) simp_all

lemma join_split_sep: "join [sep] (split_sep sep s) = s"
proof (induction s)
  case Nil
  show ?case by simp
next
  case (Cons c cs)
  obtain piece pieces where sp: "split_sep sep cs = piece # pieces"
    using split_sep_not_Nil [of sep cs] by (cases "split_sep sep cs") auto
  show ?case
  proof (cases "c = sep")
    case True
    with Cons sp show ?thesis by simp
  next
    case False
    with Cons sp show ?thesis by (cases pieces) auto
  qed
qed

lemma split_sep_no_sep: "sep \<notin> set (concat (split_sep sep s))"
proof (induction s)
  case Nil
  show ?case by simp
next
  case (Cons c cs)
  then show ?case by (auto split: list.splits)
qed

section \<open>Properties of the effects\<close>

lemma emit_globals: "globals (emit e w) = globals w"
  by (simp add: emit_def)

lemma emit_trace: "trace (emit e w) = trace w @ [e]"
  by (simp add: emit_def)

lemma printed_append: "printed (xs @ ys) = printed xs @ printed ys"
  by (induction xs rule: printed.induct) simp_all

lemma os_calls_append: "os_calls (xs @ ys) = os_calls xs @ os_calls ys"
  by (induction xs rule: os_calls.induct) simp_all

lemma announce_globals: "globals (snd (announce c t w)) = globals w"
  by (cases c) (simp_all add: emit_globals)

lemma announce_returns: "fst (announce c t w) = Returns ()"
  by (cases c) simp_all

lemma run_globals: "globals (snd (run h fv m cmdline w)) = globals w"
  by (cases m) (simp_all add: emit_globals Let_def split: sum.splits)

lemma run_extends_trace: "\<exists>es. trace (snd (run h fv m cmdline w)) = trace w @ es"
  by (cases m) (simp_all add: emit_trace Let_def split: sum.splits)

text \<open>
  What \<open>run\<close> does after a \<open>print\<close> is what it does without it: the same outcome and
  the same events, none of them a \<open>print\<close>.
\<close>

lemma run_after_print:
  "run h fv m cmdline (emit (Print t) w) = (r, w') \<Longrightarrow>
     \<exists>es. w' = w\<lparr>trace := trace w @ Print t # es\<rparr> \<and> printed es = []
        \<and> run h fv m cmdline w = (r, w\<lparr>trace := trace w @ es\<rparr>)"
  by (cases m) (auto simp add: emit_def Let_def split: sum.splits if_splits)

lemma seq_globals:
  assumes "\<And>w. globals (snd (f w)) = globals w"
    and "\<And>x w. globals (snd (g x w)) = globals w"
  shows "globals (snd (seq f g w)) = globals w"
proof (cases "f w")
  case (Pair r w1)
  have "globals w1 = globals w" using assms(1) [of w] Pair by simp
  then show ?thesis
    using Pair assms(2) by (cases r) (simp_all add: seq_def)
qed

lemma LaunchMode_init_globals: "globals (snd (LaunchMode_init c label command w)) = globals w"
  by (simp add: LaunchMode_init_def)

lemma call_globals: "globals (snd (call h fv self w)) = globals w"
  unfolding call_def by (rule seq_globals) (simp_all add: announce_globals run_globals)

lemma selfTest_globals: "globals (snd (selfTest h argv fv w)) = globals w"
  unfolding selfTest_def Let_def
  by (auto intro!: seq_globals simp: call_globals LaunchMode_init_globals emit_globals)

text \<open>\<open>cls(label, command)()\<close>: construction, then the call of the new instance.\<close>

lemma call_after_init:
  "seq (LaunchMode_init c label command) (call h fv) w
     = run h fv (run_class (globals w) c) command (snd (announce c label w))"
  by (cases c) (simp_all add: seq_def LaunchMode_init_def call_def emit_globals)

section \<open>Claims about fixWindowsPath\<close>

text \<open>
  C9: for every input string, the empty one included, \<open>fixWindowsPath\<close> returns a string:
  no input makes it raise (the list that \<open>split\<close> returns is never empty, so
  \<open>splitLine[0]\<close> is always in range).
\<close>

theorem fixWindowsPath_returns: "\<exists>r. fixWindowsPath h cmdline = Inr r"
  using split_sep_not_Nil [of "CHR '' ''" "lstrip cmdline"]
  by (cases "split_sep CHR '' '' (lstrip cmdline)") (simp_all add: fixWindowsPath_def)

text \<open>
  C4: the tokens of a command line are the pieces of the left-stripped input between
  single spaces (joining them with a space gives that input back, and no token holds a
  space); the result of \<open>fixWindowsPath\<close> is the normalised first token followed
  directly by all the other tokens, in order, with nothing between any two of them.
\<close>

theorem fixWindowsPath_concatenates:
  "let tokens = split_sep CHR '' '' (lstrip cmdline)
   in tokens \<noteq> []
      \<and> join '' '' tokens = lstrip cmdline
      \<and> CHR '' '' \<notin> set (concat tokens)
      \<and> fixWindowsPath h cmdline
          = Inr (os_path_normpath h (hd tokens) @ concat (tl tokens))"
proof -
  obtain first rest where sp: "split_sep CHR '' '' (lstrip cmdline) = first # rest"
    using split_sep_not_Nil [of "CHR '' ''" "lstrip cmdline"]
    by (cases "split_sep CHR '' '' (lstrip cmdline)") auto
  have j: "join '' '' (split_sep CHR '' '' (lstrip cmdline)) = lstrip cmdline"
    by (rule join_split_sep)
  have n: "CHR '' '' \<notin> set (concat (split_sep CHR '' '' (lstrip cmdline)))"
    by (rule split_sep_no_sep)
  show ?thesis
    using sp j n by (simp add: fixWindowsPath_def Let_def join_empty_sep)
qed


text \<open>
  C1: the claim is that the result of \<open>fixWindowsPath\<close> is a command line with the
  normalised path as its head token and the arguments after it, unchanged. On a POSIX
  host the command line \<open>a//b x y\<close> has the tokens \<open>a//b\<close>, \<open>x\<close> and \<open>y\<close>, and
  \<open>a//b\<close> normalises to \<open>a/b\<close>; the function returns \<open>a/bxy\<close>, a command line of one
  token: the arguments are glued to the path and to each other.
\<close>

theorem fixWindowsPath_glues_arguments:
  "split_sep CHR '' '' (lstrip ''a//b x y'') = [''a//b'', ''x'', ''y'']
   \<and> posix_normpath ''a//b'' = ''a/b''
   \<and> fixWindowsPath linux_host ''a//b x y'' = Inr ''a/bxy''
   \<and> split_sep CHR '' '' (lstrip ''a/bxy'') = [''a/bxy'']"
  by (simp add: fixWindowsPath_def linux_host_def lstrip_def isspace_def posix_normpath_def)

section \<open>Claims about the launchers\<close>

text \<open>
  C2: whatever the platform identifier, the import binds \<open>PortableLauncher\<close> to \<open>Spawn\<close>
  exactly when \<open>sys.platform\<close> starts with \<open>win\<close> and to \<open>Fork\<close> exactly when it does
  not; that binding is the one the process starts with, and neither constructing an
  instance, nor calling one, nor \<open>selfTest\<close> changes the module's globals.
\<close>

theorem PortableLauncher_bound_once:
  "(PortableLauncher (import_module h) = Spawn \<longleftrightarrow> windows_like h)
   \<and> (PortableLauncher (import_module h) = Fork \<longleftrightarrow> \<not> windows_like h)
   \<and> globals (start h) = import_module h
   \<and> globals (snd (LaunchMode_init c label command w)) = globals w
   \<and> globals (snd (call h' fv self w)) = globals w
   \<and> globals (snd (selfTest h' argv fv w)) = globals w"
  by (simp add: import_module_def start_def LaunchMode_init_globals call_globals
      selfTest_globals)

text \<open>
  C3, as amended: when assertions are on (Python not started with \<open>-O\<close>), on a host whose
  \<open>sys.platform\<close> does not start with \<open>win\<close>, \<open>run\<close> of \<open>Start\<close> and of \<open>StartArgs\<close>
  raise AssertionError and leave the process as it was, and on a host without \<open>os.fork\<close>
  so does \<open>run\<close> of \<open>Fork\<close>; constructing and calling such a launcher prints the label
  and raises, with no call to a process primitive.
\<close>

theorem wrong_host_raises_before_os_call:
  assumes "debug h"
  shows "(\<not> windows_like h \<longrightarrow>
      run h fv Start command w = (Raises (AssertionError []), w)
      \<and> run h fv StartArgs command w = (Raises (AssertionError []), w)
      \<and> seq (LaunchMode_init (Mode Start) label command) (call h fv) w
          = (Raises (AssertionError []), emit (Print label) w)
      \<and> seq (LaunchMode_init (Mode StartArgs) label command) (call h fv) w
          = (Raises (AssertionError []), emit (Print label) w))
   \<and> (\<not> os_has_fork h \<longrightarrow>
      run h fv Fork command w = (Raises (AssertionError []), w)
      \<and> seq (LaunchMode_init (Mode Fork) label command) (call h fv) w
          = (Raises (AssertionError []), emit (Print label) w))"
  using assms by (simp add: call_after_init)

theorem wrong_host_raises_before_os_call_witness:
  "debug wasm_host \<and> \<not> windows_like wasm_host \<and> \<not> os_has_fork wasm_host
   \<and> seq (LaunchMode_init (Mode Start) ''open'' ''a.py'') (call wasm_host 0) (start wasm_host)
       = (Raises (AssertionError []),
          \<lparr>globals = import_module wasm_host, trace = [Print ''open'']\<rparr>)
   \<and> seq (LaunchMode_init (Mode StartArgs) ''open'' ''a.py'') (call wasm_host 0)
         (start wasm_host)
       = (Raises (AssertionError []),
          \<lparr>globals = import_module wasm_host, trace = [Print ''open'']\<rparr>)
   \<and> seq (LaunchMode_init (Mode Fork) ''open'' ''a.py'') (call wasm_host 0) (start wasm_host)
       = (Raises (AssertionError []),
          \<lparr>globals = import_module wasm_host, trace = [Print ''open'']\<rparr>)"
proof -
  have d: "debug wasm_host" by (simp add: wasm_host_def)
  have p: "\<not> windows_like wasm_host" by (simp add: windows_like_def wasm_host_def)
  have f: "\<not> os_has_fork wasm_host" by (simp add: wasm_host_def)
  show ?thesis
    using d p f
      wrong_host_raises_before_os_call [OF d, of 0 "''a.py''" "start wasm_host" "''open''"]
    by (simp add: emit_def start_def)
qed

text \<open>
  C3 as stated fails when Python runs with \<open>-O\<close>: the \<open>assert\<close> is compiled away, and on
  the Linux host constructing and calling a \<open>StartArgs\<close> prints the label, calls
  \<open>os.system\<close> on \<open>start a.py\<close> and returns: nothing is raised and a call to the
  operating system is made.
\<close>

theorem StartArgs_without_assert_calls_system:
  "\<not> windows_like linux_host_O
   \<and> seq (LaunchMode_init (Mode StartArgs) ''open'' ''a.py'') (call linux_host_O 0)
         (start linux_host_O)
       = (Returns (),
          \<lparr>globals = import_module linux_host_O,
           trace = [Print ''open'', Os_system ''start a.py'']\<rparr>)"
  by (simp add: call_after_init windows_like_def linux_host_O_def linux_host_def start_def
      emit_def)

text \<open>
  C5, as amended: when assertions are on (Python not started with \<open>-O\<close>), whatever the
  label and the command, the empty ones included, \<open>run\<close> of \<open>TopLevel\<close> raises
  AssertionError with the message \<open>Mode not yet implemented.\<close>, so constructing and
  calling a \<open>TopLevel\<close> prints the label and fails with that error.
\<close>

theorem TopLevel_always_raises:
  assumes "debug h"
  shows "run h fv TopLevel command w
       = (Raises (AssertionError ''Mode not yet implemented.''), w)
   \<and> seq (LaunchMode_init (Mode TopLevel) label command) (call h fv) w
       = (Raises (AssertionError ''Mode not yet implemented.''), emit (Print label) w)
   \<and> seq (LaunchMode_init (Mode TopLevel) [] []) (call h fv) w
       = (Raises (AssertionError ''Mode not yet implemented.''), emit (Print []) w)"
  using assms by (simp add: call_after_init)

theorem TopLevel_always_raises_witness:
  "debug linux_host
   \<and> seq (LaunchMode_init (Mode TopLevel) ''top'' ''a.py'') (call linux_host 0)
         (start linux_host)
       = (Raises (AssertionError ''Mode not yet implemented.''),
          \<lparr>globals = import_module linux_host, trace = [Print ''top'']\<rparr>)
   \<and> seq (LaunchMode_init (Mode TopLevel) [] []) (call linux_host 0) (start linux_host)
       = (Raises (AssertionError ''Mode not yet implemented.''),
          \<lparr>globals = import_module linux_host, trace = [Print []]\<rparr>)"
proof -
  have d: "debug linux_host" by (simp add: linux_host_def)
  show ?thesis
    using d TopLevel_always_raises [OF d, of 0 "''a.py''" "start linux_host" "''top''"]
    by (simp add: emit_def start_def)
qed

text \<open>
  C5 as stated fails when Python runs with \<open>-O\<close>: \<open>assert False\<close> is compiled away, so
  constructing and calling a \<open>TopLevel\<close> prints the label and returns.
\<close>

theorem TopLevel_without_assert_returns:
  "seq (LaunchMode_init (Mode TopLevel) ''top'' ''a.py'') (call linux_host_O 0)
     (start linux_host_O)
   = (Returns (), \<lparr>globals = import_module linux_host_O, trace = [Print ''top'']\<rparr>)"
  by (simp add: call_after_init linux_host_O_def linux_host_def start_def emit_def)

text \<open>
  C6: for every label and command, constructing and calling a \<open>QuietPortableLauncher\<close>
  ends as constructing and calling a \<open>PortableLauncher\<close> does and makes the same calls
  to the process primitives, but prints nothing, where the \<open>PortableLauncher\<close> prints
  the label.
\<close>

theorem QuietPortableLauncher_same_launch_no_output:
  "let loud = seq (LaunchMode_init (Mode (PortableLauncher (globals w))) label command)
                (call h fv) w;
       quiet = seq (LaunchMode_init QuietPortableLauncher label command) (call h fv) w
   in fst quiet = fst loud
      \<and> os_calls (trace (snd quiet)) = os_calls (trace (snd loud))
      \<and> printed (trace (snd quiet)) = printed (trace w)
      \<and> printed (trace (snd loud)) = printed (trace w) @ [label]"
proof -
  obtain r w' where rw:
    "run h fv (PortableLauncher (globals w)) command (emit (Print label) w) = (r, w')"
    by (cases "run h fv (PortableLauncher (globals w)) command (emit (Print label) w)")
  from run_after_print [OF rw] obtain es where
    es: "w' = w\<lparr>trace := trace w @ Print label # es\<rparr>" "printed es = []"
      "run h fv (PortableLauncher (globals w)) command w = (r, w\<lparr>trace := trace w @ es\<rparr>)"
    by blast
  show ?thesis
    using rw es by (simp add: call_after_init Let_def printed_append os_calls_append)
qed

text \<open>
  C7, as amended: on a host whose \<open>sys.platform\<close> does not start with \<open>win\<close> and whose
  \<open>os\<close> module has \<open>fork\<close>, constructing \<open>PortableLauncher\<close> with the label \<open>run\<close> and
  the command \<open>/tmp/script.py --flag\<close> and calling it prints the label and forks; the
  child then calls \<open>os.execvp\<close> on the interpreter with the argument vector \<open>python\<close>,
  \<open>/tmp/script.py\<close>, \<open>--flag\<close> (the tokens of the command as they are;
  \<open>/tmp/script.py\<close> is its own normal form), and the parent returns after the fork
  with no further call.
\<close>

theorem default_launch_forks_then_execs:
  assumes "\<not> windows_like h" and "os_has_fork h" and "globals w = import_module h"
    and "0 < pid"
  shows "seq (LaunchMode_init (Mode (PortableLauncher (globals w)))
                ''run'' ''/tmp/script.py --flag'')
           (call h 0) w
         = (Replaced,
            w\<lparr>trace := trace w @
               [Print ''run'', Os_fork,
                Os_execvp (sys_executable h) [''python'', ''/tmp/script.py'', ''--flag'']]\<rparr>)
       \<and> seq (LaunchMode_init (Mode (PortableLauncher (globals w)))
                ''run'' ''/tmp/script.py --flag'')
           (call h pid) w
         = (Returns (), w\<lparr>trace := trace w @ [Print ''run'', Os_fork]\<rparr>)
       \<and> posix_normpath ''/tmp/script.py'' = ''/tmp/script.py''"
proof -
  have sp: "split_ws ''/tmp/script.py --flag'' = [''/tmp/script.py'', ''--flag'']"
    by (simp add: split_ws_def isspace_def)
  have np: "posix_normpath ''/tmp/script.py'' = ''/tmp/script.py''"
    by (simp add: posix_normpath_def)
  show ?thesis
    using assms sp np
    by (simp add: call_after_init import_module_def emit_def Let_def)
qed

theorem default_launch_forks_then_execs_witness:
  "\<not> windows_like linux_host \<and> os_has_fork linux_host
   \<and> globals (start linux_host) = import_module linux_host \<and> (0::nat) < 4711
   \<and> seq (LaunchMode_init (Mode (PortableLauncher (globals (start linux_host))))
            ''run'' ''/tmp/script.py --flag'')
         (call linux_host 0) (start linux_host)
       = (Replaced,
          \<lparr>globals = import_module linux_host,
           trace = [Print ''run'', Os_fork,
                    Os_execvp ''/usr/bin/python3''
                      [''python'', ''/tmp/script.py'', ''--flag'']]\<rparr>)
   \<and> seq (LaunchMode_init (Mode (PortableLauncher (globals (start linux_host))))
            ''run'' ''/tmp/script.py --flag'')
         (call linux_host 4711) (start linux_host)
       = (Returns (),
          \<lparr>globals = import_module linux_host, trace = [Print ''run'', Os_fork]\<rparr>)"
proof -
  have a: "\<not> windows_like linux_host" by (simp add: windows_like_def linux_host_def)
  have b: "os_has_fork linux_host" by (simp add: linux_host_def)
  have c: "globals (start linux_host) = import_module linux_host" by (simp add: start_def)
  have d: "(0::nat) < 4711" by simp
  have e: "sys_executable linux_host = ''/usr/bin/python3''" by (simp add: linux_host_def)
  show ?thesis
    using a b c d default_launch_forks_then_execs [OF a b c d] by (simp add: start_def e)
qed

text \<open>
  C7 as stated fails on a host that is not Windows-like and has no \<open>os.fork\<close>: there
  the same construction and call prints the label and raises AssertionError; nothing is
  forked and nothing executed.
\<close>

theorem default_launch_without_fork_raises:
  "\<not> windows_like wasm_host
   \<and> seq (LaunchMode_init (Mode (PortableLauncher (globals (start wasm_host))))
            ''run'' ''/tmp/script.py --flag'')
         (call wasm_host 0) (start wasm_host)
       = (Raises (AssertionError []),
          \<lparr>globals = import_module wasm_host, trace = [Print ''run'']\<rparr>)"
  by (simp add: call_after_init windows_like_def wasm_host_def start_def import_module_def
      emit_def)

text \<open>
  C8: constructing an instance stores the label and the command and leaves the process
  as it was; calling the instance is \<open>announce\<close> on the label, which always returns
  (having printed the label, or nothing for the quiet class), then \<open>run\<close> on the command in
  the process that \<open>announce\<close> left, so that every event of \<open>run\<close> comes after it.
\<close>

theorem call_announces_then_runs:
  "LaunchMode_init c label command w
     = (Returns \<lparr>cls = c, what = label, where' = command\<rparr>, w)
   \<and> fst (announce c label w) = Returns ()
   \<and> trace (snd (announce c label w))
       = trace w @ (case c of Mode m \<Rightarrow> [Print label] | QuietPortableLauncher \<Rightarrow> [])
   \<and> call h fv \<lparr>cls = c, what = label, where' = command\<rparr> w
       = run h fv (run_class (globals w) c) command (snd (announce c label w))
   \<and> (\<exists>es. trace (snd (call h fv \<lparr>cls = c, what = label, where' = command\<rparr> w))
             = trace (snd (announce c label w)) @ es)"
proof -
  have eq: "call h fv \<lparr>cls = c, what = label, where' = command\<rparr> w
       = run h fv (run_class (globals w) c) command (snd (announce c label w))"
    by (cases c) (simp_all add: call_def seq_def emit_globals)
  have ext: "\<exists>es. trace (snd (run h fv (run_class (globals w) c) command
                 (snd (announce c label w))))
             = trace (snd (announce c label w)) @ es"
    by (rule run_extends_trace)
  have tr: "trace (snd (announce c label w))
       = trace w @ (case c of Mode m \<Rightarrow> [Print label] | QuietPortableLauncher \<Rightarrow> [])"
    by (cases c) (simp_all add: emit_trace)
  show ?thesis
    using eq ext tr by (simp add: LaunchMode_init_def announce_returns)
qed




end
